theory Spec2Isabelle
  imports Main
begin

section \<open>Frame state (packages/puppeteer-core/src/common/Frame.ts)\<close>

text \<open>
  The two keys of \<open>IsolatedWorldChart\<close>: \<open>MAIN_WORLD\<close> and \<open>PUPPETEER_WORLD\<close>.
\<close>

datatype world_kind = MAIN_WORLD | PUPPETEER_WORLD

text \<open>
  Modelled from the spec: the class \<open>IsolatedWorld\<close> (IsolatedWorld.ts) is not among the
  sources. The spec gives it at most one live execution context (an opaque remote context
  id), none when it is created, and a \<open>detach()\<close> that "clears the live context
  permanently".
\<close>

record isolated_world =
  live_context :: "nat option"
  world_detached :: bool

definition new_IsolatedWorld :: isolated_world where
  "new_IsolatedWorld = \<lparr>live_context = None, world_detached = False\<rparr>"

definition world_detach :: "isolated_world \<Rightarrow> isolated_world" where
  "world_detach w = w\<lparr>live_context := None, world_detached := True\<rparr>"

text \<open>
  The fields of class \<open>Frame\<close>. \<open>fr_url\<close>, \<open>fr_detached\<close> and \<open>fr_client\<close> are the private
  fields \<open>#url\<close>, \<open>#detached\<close> and \<open>#client\<close> (a session, named by a number); the others
  are \<open>worlds\<close>, \<open>_id\<close>, \<open>_loaderId\<close>, \<open>_name\<close> (optional), \<open>_hasStartedLoading\<close>,
  \<open>_lifecycleEvents\<close> (a \<open>Set<string>\<close>) and \<open>_parentId\<close> (optional). The back reference
  \<open>_frameManager\<close> is never written after construction and is left out.
\<close>

record frame =
  fr_url :: string
  fr_detached :: bool
  fr_client :: nat
  fr_worlds :: "world_kind \<Rightarrow> isolated_world"
  fr_id :: string
  fr_loaderId :: string
  fr_name :: "string option"
  fr_hasStartedLoading :: bool
  fr_lifecycleEvents :: "string set"
  fr_parentId :: "string option"

text \<open>\<open>updateClient(client)\<close>: stores the session and replaces both worlds by fresh ones.\<close>

definition updateClient :: "frame \<Rightarrow> nat \<Rightarrow> frame" where
  "updateClient f client =
     f\<lparr>fr_client := client, fr_worlds := (\<lambda>k. new_IsolatedWorld)\<rparr>"

text \<open>The constructor \<open>new Frame(frameManager, frameId, parentFrameId, client)\<close>.\<close>

definition new_Frame :: "string \<Rightarrow> string option \<Rightarrow> nat \<Rightarrow> frame" where
  "new_Frame frameId parentFrameId client =
     updateClient
       \<lparr>fr_url = [], fr_detached = False, fr_client = client,
        fr_worlds = (\<lambda>k. new_IsolatedWorld), fr_id = frameId, fr_loaderId = [],
        fr_name = None, fr_hasStartedLoading = False, fr_lifecycleEvents = {},
        fr_parentId = parentFrameId\<rparr>
       client"

text \<open>
  JavaScript truthiness of an optional string: \<open>undefined\<close> and the empty string are
  falsy, every other string is truthy (\<open>!!x\<close>). \<open>or_else x d\<close> is \<open>x || d\<close>.
\<close>

fun truthy :: "string option \<Rightarrow> bool" where
  "truthy None = False"
| "truthy (Some s) = (s \<noteq> [])"

fun or_else :: "string option \<Rightarrow> string \<Rightarrow> string" where
  "or_else None d = d"
| "or_else (Some s) d = (if s \<noteq> [] then s else d)"

text \<open>The accessors \<open>name()\<close>, \<open>url()\<close> and \<open>isDetached()\<close>.\<close>

definition name :: "frame \<Rightarrow> string" where
  "name f = or_else (fr_name f) []"

definition url :: "frame \<Rightarrow> string" where
  "url f = fr_url f"

definition isDetached :: "frame \<Rightarrow> bool" where
  "isDetached f = fr_detached f"

text \<open>
  The fields of \<open>Protocol.Page.Frame\<close> that \<open>_navigated\<close> reads: \<open>url\<close>, the optional
  \<open>urlFragment\<close> and the optional \<open>name\<close>.
\<close>

record frame_payload =
  p_url :: string
  p_urlFragment :: "string option"
  p_name :: "string option"

definition navigated :: "frame \<Rightarrow> frame_payload \<Rightarrow> frame" where
  "navigated f framePayload =
     f\<lparr>fr_name := p_name framePayload,
       fr_url := p_url framePayload @ or_else (p_urlFragment framePayload) []\<rparr>"

definition navigatedWithinDocument :: "frame \<Rightarrow> string \<Rightarrow> frame" where
  "navigatedWithinDocument f u = f\<lparr>fr_url := u\<rparr>"

text \<open>
  \<open>_onLifecycleEvent(loaderId, name)\<close>: the \<open>if\<close> resets the loader id and clears the set;
  the \<open>add\<close> after it runs on both branches.
\<close>

definition onLifecycleEvent :: "frame \<Rightarrow> string \<Rightarrow> string \<Rightarrow> frame" where
  "onLifecycleEvent f loaderId nm =
     (let f1 = (if nm = ''init''
                then f\<lparr>fr_loaderId := loaderId, fr_lifecycleEvents := {}\<rparr>
                else f)
      in f1\<lparr>fr_lifecycleEvents := insert nm (fr_lifecycleEvents f1)\<rparr>)"

definition onLoadingStopped :: "frame \<Rightarrow> frame" where
  "onLoadingStopped f =
     f\<lparr>fr_lifecycleEvents :=
         insert ''load'' (insert ''DOMContentLoaded'' (fr_lifecycleEvents f))\<rparr>"

definition onLoadingStarted :: "frame \<Rightarrow> frame" where
  "onLoadingStarted f = f\<lparr>fr_hasStartedLoading := True\<rparr>"

text \<open>
  \<open>_detach()\<close>: sets the flag, then detaches the main world and the puppeteer world.
\<close>

definition detach :: "frame \<Rightarrow> frame" where
  "detach f =
     (let f1 = f\<lparr>fr_detached := True\<rparr>;
          f2 = f1\<lparr>fr_worlds := (fr_worlds f1)(MAIN_WORLD := world_detach (fr_worlds f1 MAIN_WORLD))\<rparr>
      in f2\<lparr>fr_worlds :=
              (fr_worlds f2)(PUPPETEER_WORLD := world_detach (fr_worlds f2 PUPPETEER_WORLD))\<rparr>)"

text \<open>
  Every method of \<open>Frame\<close> that writes a field of the frame, as an operation; a frame's
  life after construction is a list of them.
\<close>

datatype frame_op =
    UpdateClient nat
  | Navigated frame_payload
  | NavigatedWithinDocument string
  | OnLifecycleEvent string string
  | OnLoadingStopped
  | OnLoadingStarted
  | Detach

fun apply_op :: "frame \<Rightarrow> frame_op \<Rightarrow> frame" where
  "apply_op f (UpdateClient c) = updateClient f c"
| "apply_op f (Navigated p) = navigated f p"
| "apply_op f (NavigatedWithinDocument u) = navigatedWithinDocument f u"
| "apply_op f (OnLifecycleEvent l n) = onLifecycleEvent f l n"
| "apply_op f OnLoadingStopped = onLoadingStopped f"
| "apply_op f OnLoadingStarted = onLoadingStarted f"
| "apply_op f Detach = detach f"

definition run_ops :: "frame \<Rightarrow> frame_op list \<Rightarrow> frame" where
  "run_ops f ops = foldl apply_op f ops"

fun is_Navigated :: "frame_op \<Rightarrow> bool" where
  "is_Navigated (Navigated p) = True"
| "is_Navigated _ = False"


section \<open>Promises and thrown values\<close>

text \<open>
  What JavaScript code throws or rejects with: an \<open>Error\<close> object with its message, a
  \<open>TypeError\<close> object with its message, or any other value (\<open>Value\<close>, by a printed
  form).
\<close>

datatype js_value = Error string | TypeError string | Value string

fun instanceof_TypeError :: "js_value \<Rightarrow> bool" where
  "instanceof_TypeError (TypeError m) = True"
| "instanceof_TypeError _ = False"

text \<open>
  A promise is described by how it settles: \<open>None\<close> when it never settles, otherwise the
  tick at which it settles and whether it is fulfilled with a value or rejected.
\<close>

datatype 'a settled = Fulfilled 'a | Rejected js_value

type_synonym 'a promise = "(nat \<times> 'a settled) option"

text \<open>
  \<open>await p\<close> reached at tick \<open>now\<close> resumes when \<open>p\<close> has settled, at \<open>now\<close> at the
  earliest.
\<close>

fun await :: "nat \<Rightarrow> 'a promise \<Rightarrow> 'a promise" where
  "await now None = None"
| "await now (Some (t, s)) = Some (max now t, s)"

text \<open>
  \<open>Promise.race(ps)\<close> awaited at tick \<open>now\<close>: the promise that settles first decides;
  among promises settled by the same tick the one that comes first in the array does.
\<close>

fun earlier :: "'a promise \<Rightarrow> 'a promise \<Rightarrow> 'a promise" where
  "earlier None q = q"
| "earlier (Some p) None = Some p"
| "earlier (Some (t, a)) (Some (u, b)) = (if u < t then Some (u, b) else Some (t, a))"

definition race :: "nat \<Rightarrow> 'a promise list \<Rightarrow> 'a promise" where
  "race now ps = foldr earlier (map (await now) ps) None"

text \<open>How an asynchronous call ends, and whether \<open>watcher.dispose()\<close> ran before that.\<close>

datatype 'a completion = Returns 'a | Throws js_value

record 'a call_result =
  completion :: "'a completion"
  disposed :: bool

section \<open>The lifecycle watcher\<close>

text \<open>
  Modelled from the spec: the class \<open>LifecycleWatcher\<close> (LifecycleWatcher.ts) is not among
  the sources. The spec makes it a state machine that is pending until it is resolved by a
  same-document or a new-document navigation, or failed by timeout or termination, and
  Frame.ts reads a failure as the value that \<open>timeoutOrTerminationPromise()\<close> is fulfilled
  with. A watcher is given here by what its promises do: the tick and error of the failure
  (if any), the tick at which each navigation path resolves (if ever), and the promise that
  \<open>navigationResponse()\<close> returns (a response or \<open>null\<close>).
\<close>

record 'r lifecycle_watcher =
  timeoutOrTermination :: "(nat \<times> js_value) option"
  sameDocumentNavigation :: "nat option"
  newDocumentNavigation :: "nat option"
  navigationResponse :: "'r option promise"

definition timeoutOrTerminationPromise :: "'r lifecycle_watcher \<Rightarrow> js_value option promise" where
  "timeoutOrTerminationPromise w =
     (case timeoutOrTermination w of None \<Rightarrow> None | Some (t, e) \<Rightarrow> Some (t, Fulfilled (Some e)))"

definition sameDocumentNavigationPromise :: "'r lifecycle_watcher \<Rightarrow> js_value option promise" where
  "sameDocumentNavigationPromise w =
     (case sameDocumentNavigation w of None \<Rightarrow> None | Some t \<Rightarrow> Some (t, Fulfilled None))"

definition newDocumentNavigationPromise :: "'r lifecycle_watcher \<Rightarrow> js_value option promise" where
  "newDocumentNavigationPromise w =
     (case newDocumentNavigation w of None \<Rightarrow> None | Some t \<Rightarrow> Some (t, Fulfilled None))"

section \<open>goto and waitForNavigation\<close>

text \<open>
  The response of the \<open>Page.navigate\<close> command, with the two optional fields that
  \<open>navigate\<close> reads.
\<close>

record navigate_response =
  loaderId :: "string option"
  errorText :: "string option"

text \<open>
  What a call of \<open>goto\<close> or \<open>waitForNavigation\<close> meets: how \<open>client.send('Page.navigate',
  ...)\<close> settles, the watcher it constructs, and \<open>isErrorLike\<close> (util/ErrorLike.js, not
  among the sources, so a parameter; a value it accepts is an object, hence truthy).
\<close>

record 'r navigation_env =
  isErrorLike :: "js_value \<Rightarrow> bool"
  send_navigate :: "navigate_response promise"
  watcher :: "'r lifecycle_watcher"

text \<open>
  The inner function \<open>navigate\<close> of \<open>goto\<close>, from the point where \<open>client.send\<close> has
  settled: it returns the new value of the captured variable
  \<open>ensureNewDocumentNavigation\<close> (given as \<open>ensure\<close>) and how its own promise settles,
  fulfilled with an error or \<open>null\<close>, or rejected.
\<close>

definition navigate ::
  "(js_value \<Rightarrow> bool) \<Rightarrow> string \<Rightarrow> navigate_response settled \<Rightarrow> bool
     \<Rightarrow> bool \<times> js_value option settled" where
  "navigate is_error_like target sent ensure =
     (case sent of
        Fulfilled response \<Rightarrow>
          (truthy (loaderId response),
           if errorText response = Some ''net::ERR_HTTP_RESPONSE_CODE_FAILURE''
           then Fulfilled None
           else Fulfilled
                  (if truthy (errorText response)
                   then Some (Error (or_else (errorText response) [] @ '' at '' @ target))
                   else None))
      | Rejected error \<Rightarrow>
          (ensure, if is_error_like error then Fulfilled (Some error) else Rejected error))"

definition navigate_promise :: "'r navigation_env \<Rightarrow> string \<Rightarrow> js_value option promise" where
  "navigate_promise env target =
     (case send_navigate env of
        None \<Rightarrow> None
      | Some (t, sent) \<Rightarrow> Some (t, snd (navigate (isErrorLike env) target sent False)))"

text \<open>
  The value of \<open>ensureNewDocumentNavigation\<close> that \<open>goto\<close> reads at tick \<open>now\<close>: \<open>false\<close>
  until \<open>navigate\<close> has run past its \<open>await\<close>.
\<close>

definition ensureNewDocumentNavigation :: "'r navigation_env \<Rightarrow> string \<Rightarrow> nat \<Rightarrow> bool" where
  "ensureNewDocumentNavigation env target now =
     (case send_navigate env of
        None \<Rightarrow> False
      | Some (t, sent) \<Rightarrow>
          if t \<le> now then fst (navigate (isErrorLike env) target sent False) else False)"

text \<open>
  The block \<open>try { if (error) throw error; return await watcher.navigationResponse(); }
  finally { watcher.dispose(); }\<close> that ends both \<open>goto\<close> and \<open>waitForNavigation\<close>,
  entered at tick \<open>now\<close>. \<open>None\<close> is a call that never completes.
\<close>

definition throw_or_respond ::
  "'r lifecycle_watcher \<Rightarrow> nat \<Rightarrow> js_value option \<Rightarrow> 'r option call_result option" where
  "throw_or_respond w now error =
     (case error of
        Some e \<Rightarrow> Some \<lparr>completion = Throws e, disposed = True\<rparr>
      | None \<Rightarrow>
          (case await now (navigationResponse w) of
             None \<Rightarrow> None
           | Some (t, Fulfilled r) \<Rightarrow> Some \<lparr>completion = Returns r, disposed = True\<rparr>
           | Some (t, Rejected e) \<Rightarrow> Some \<lparr>completion = Throws e, disposed = True\<rparr>))"

text \<open>
  The second \<open>await Promise.race\<close> of \<open>goto\<close>, reached at tick \<open>now\<close> with the flag
  \<open>ensure\<close>.
\<close>

definition goto_wait :: "'r lifecycle_watcher \<Rightarrow> bool \<Rightarrow> nat \<Rightarrow> js_value option promise" where
  "goto_wait w ensure now =
     race now
       [timeoutOrTerminationPromise w,
        if ensure then newDocumentNavigationPromise w else sameDocumentNavigationPromise w]"

text \<open>
  What follows an \<open>await Promise.race(...)\<close> whose value is assigned to \<open>error\<close>: a
  rejection leaves the method at the \<open>await\<close>, before the \<open>try\<close> block; a fulfilment enters
  the block.
\<close>

definition after_await ::
  "'r lifecycle_watcher \<Rightarrow> js_value option promise \<Rightarrow> 'r option call_result option" where
  "after_await w p =
     (case p of
        None \<Rightarrow> None
      | Some (t, Rejected e) \<Rightarrow> Some \<lparr>completion = Throws e, disposed = False\<rparr>
      | Some (t, Fulfilled error) \<Rightarrow> throw_or_respond w t error)"

definition goto :: "'r navigation_env \<Rightarrow> string \<Rightarrow> 'r option call_result option" where
  "goto env target =
     (case race 0 [navigate_promise env target, timeoutOrTerminationPromise (watcher env)] of
        None \<Rightarrow> None
      | Some (t1, Rejected e) \<Rightarrow> Some \<lparr>completion = Throws e, disposed = False\<rparr>
      | Some (t1, Fulfilled (Some e)) \<Rightarrow> throw_or_respond (watcher env) t1 (Some e)
      | Some (t1, Fulfilled None) \<Rightarrow>
          after_await (watcher env)
            (goto_wait (watcher env) (ensureNewDocumentNavigation env target t1) t1))"

definition waitForNavigation :: "'r lifecycle_watcher \<Rightarrow> 'r option call_result option" where
  "waitForNavigation w =
     after_await w
       (race 0
          [timeoutOrTerminationPromise w,
           sameDocumentNavigationPromise w,
           newDocumentNavigationPromise w])"

section \<open>addScriptTag and addStyleTag\<close>

record script_tag_options =
  o_url :: "string option"
  o_path :: "string option"
  o_content :: "string option"
  o_type :: "string option"
  o_id :: "string option"

record style_tag_options =
  s_url :: "string option"
  s_path :: "string option"
  s_content :: "string option"

text \<open>
  The argument object that the function evaluated in the page destructures:
  \<open>{url, id, type, content}\<close> for a script, \<open>{url, content}\<close> for a style.
\<close>

datatype remote_call =
    InjectScript "string option" "string option" string string
  | InjectStyle "string option" "string option"

text \<open>What a call does outside the frame, in order.\<close>

datatype effect =
    ImportFS
  | ReadFile string
  | EvaluateHandle remote_call
  | TransferHandle

text \<open>
  The collaborators of the two methods: the import of the \<open>fs\<close> module (\<open>Some e\<close> when it
  throws \<open>e\<close>), \<open>fs.readFile(path, 'utf8')\<close>, \<open>evaluateHandle\<close> of the puppeteer world
  and \<open>transferHandle\<close> of the main world.
\<close>

record 'h injection_env =
  import_fs :: "js_value option"
  readFile :: "string \<Rightarrow> js_value + string"
  evaluateHandle :: "remote_call \<Rightarrow> js_value + 'h"
  transferHandle :: "'h \<Rightarrow> js_value + 'h"

definition exactly_one_message :: string where
  "exactly_one_message = ''Exactly one of `url`, `path`, or `content` must be specified.''"

text \<open>\<open>+!!x\<close>: 1 for a truthy value, 0 for a falsy one.\<close>

definition plus_bang_bang :: "string option \<Rightarrow> nat" where
  "plus_bang_bang x = (if truthy x then 1 else 0)"

text \<open>\<open>path.replace(/\n/g, '')\<close>.\<close>

definition strip_newlines :: "string \<Rightarrow> string" where
  "strip_newlines p = filter (\<lambda>c. c \<noteq> CHR 0x0A) p"

text \<open>
  The block \<open>if (path) { ... }\<close> of both methods: the import inside \<open>try\<close>/\<open>catch\<close>, then
  the read. It yields the text of the file and the effects so far, or what was thrown.
\<close>

definition read_path ::
  "'h injection_env \<Rightarrow> string \<Rightarrow> (js_value \<times> effect list) + (string \<times> effect list)" where
  "read_path env p =
     (case import_fs env of
        Some error \<Rightarrow>
          Inl (if instanceof_TypeError error
               then Error ''Can only pass a file path in a Node-like environment.''
               else error,
               [ImportFS])
      | None \<Rightarrow>
          (case readFile env p of
             Inl error \<Rightarrow> Inl (error, [ImportFS, ReadFile p])
           | Inr text \<Rightarrow> Inr (text, [ImportFS, ReadFile p])))"

text \<open>
  \<open>this.worlds[MAIN_WORLD].transferHandle(await this.worlds[PUPPETEER_WORLD]
  .evaluateHandle(...))\<close>, after the effects \<open>done\<close>.
\<close>

definition evaluate_and_transfer ::
  "'h injection_env \<Rightarrow> effect list \<Rightarrow> remote_call \<Rightarrow> 'h completion \<times> effect list" where
  "evaluate_and_transfer env done call =
     (case evaluateHandle env call of
        Inl error \<Rightarrow> (Throws error, done @ [EvaluateHandle call])
      | Inr handle \<Rightarrow>
          (case transferHandle env handle of
             Inl error \<Rightarrow> (Throws error, done @ [EvaluateHandle call, TransferHandle])
           | Inr moved \<Rightarrow> (Returns moved, done @ [EvaluateHandle call, TransferHandle])))"

definition addScriptTag ::
  "'h injection_env \<Rightarrow> script_tag_options \<Rightarrow> 'h completion \<times> effect list" where
  "addScriptTag env options =
     (let content = (case o_content options of None \<Rightarrow> [] | Some c \<Rightarrow> c);
          path = o_path options
      in if plus_bang_bang (o_url options) + plus_bang_bang path + plus_bang_bang (Some content)
            \<noteq> 1
         then (Throws (Error exactly_one_message), [])
         else
           (case (if truthy path
                  then (case read_path env (the path) of
                          Inl thrown \<Rightarrow> Inl thrown
                        | Inr (text, done) \<Rightarrow>
                            Inr (text @ ''//# sourceURL='' @ strip_newlines (the path), done))
                  else Inr (content, [])) of
              Inl (error, done) \<Rightarrow> (Throws error, done)
            | Inr (content1, done) \<Rightarrow>
                evaluate_and_transfer env done
                  (InjectScript (o_url options) (o_id options)
                     (case o_type options of None \<Rightarrow> ''text/javascript'' | Some t \<Rightarrow> t)
                     content1)))"

definition addStyleTag ::
  "'h injection_env \<Rightarrow> style_tag_options \<Rightarrow> 'h completion \<times> effect list" where
  "addStyleTag env options =
     (let content = (case s_content options of None \<Rightarrow> [] | Some c \<Rightarrow> c);
          path = s_path options
      in if plus_bang_bang (s_url options) + plus_bang_bang path + plus_bang_bang (Some content)
            \<noteq> 1
         then (Throws (Error exactly_one_message), [])
         else
           (case (if truthy path
                  then (case read_path env (the path) of
                          Inl thrown \<Rightarrow> Inl thrown
                        | Inr (text, done) \<Rightarrow>
                            Inr (options\<lparr>s_content :=
                                   Some (text @ ''/*# sourceURL='' @ strip_newlines (the path)
                                         @ ''*/'')\<rparr>,
                                 done))
                  else Inr (options, [])) of
              Inl (error, done) \<Rightarrow> (Throws error, done)
            | Inr (options1, done) \<Rightarrow>
                evaluate_and_transfer env done
                  (InjectStyle (s_url options1) (s_content options1))))"

text \<open>
  The number of options among \<open>url\<close>, \<open>path\<close> and \<open>content\<close> that are set, an option
  being set when it is supplied and not the empty string.
\<close>

fun is_set :: "string option \<Rightarrow> bool" where
  "is_set None = False"
| "is_set (Some []) = False"
| "is_set (Some (c # cs)) = True"

definition sources_set :: "string option \<Rightarrow> string option \<Rightarrow> string option \<Rightarrow> nat" where
  "sources_set u p c = length (filter is_set [u, p, c])"

section \<open>waitForSelector and waitForXPath\<close>

text \<open>
  \<open>getQueryHandlerAndSelector\<close> (QueryHandler.ts) is not among the sources and is a
  parameter: it maps a selector to the updated selector and to the \<open>waitFor\<close> method of the
  query handler, which may be absent. \<open>assert\<close> throws an \<open>Error\<close> with its message.
\<close>

type_synonym ('o, 'h) wait_for = "string \<Rightarrow> 'o \<Rightarrow> js_value + 'h option"

definition waitForSelector ::
  "(string \<Rightarrow> string \<times> ('o, 'h) wait_for option) \<Rightarrow> string \<Rightarrow> 'o \<Rightarrow> js_value + 'h option" where
  "waitForSelector getQueryHandlerAndSelector selector options =
     (case getQueryHandlerAndSelector selector of
        (updatedSelector, None) \<Rightarrow> Inl (Error ''Query handler does not support waiting'')
      | (updatedSelector, Some waitFor) \<Rightarrow> waitFor updatedSelector options)"

text \<open>\<open>s.startsWith(p)\<close>.\<close>

definition startsWith :: "string \<Rightarrow> string \<Rightarrow> bool" where
  "startsWith s p = (take (length p) s = p)"

definition waitForXPath ::
  "(string \<Rightarrow> string \<times> ('o, 'h) wait_for option) \<Rightarrow> string \<Rightarrow> 'o \<Rightarrow> js_value + 'h option" where
  "waitForXPath getQueryHandlerAndSelector xpath options =
     (let xpath1 = (if startsWith xpath ''//'' then ''.'' @ xpath else xpath)
      in waitForSelector getQueryHandlerAndSelector (''xpath/'' @ xpath1) options)"


section \<open>Example collaborators\<close>

text \<open>An \<open>isErrorLike\<close> that accepts the error objects and no other value.\<close>

fun is_error_object :: "js_value \<Rightarrow> bool" where
  "is_error_object (Value v) = False"
| "is_error_object _ = True"

text \<open>
  A watcher whose new-document path resolves at tick 2, whose same-document path never
  resolves, whose timeout fires at tick 9, and whose navigation response is there at
  tick 2.
\<close>

definition example_watcher :: "nat lifecycle_watcher" where
  "example_watcher =
     \<lparr>timeoutOrTermination = Some (9, Error ''Navigation timeout of 30000 ms exceeded''),
      sameDocumentNavigation = None,
      newDocumentNavigation = Some 2,
      navigationResponse = Some (2, Fulfilled (Some 200))\<rparr>"

text \<open>A call in which \<open>client.send\<close> settles at tick 1, in the way given.\<close>

definition example_env :: "navigate_response settled \<Rightarrow> nat navigation_env" where
  "example_env sent =
     \<lparr>isErrorLike = is_error_object, send_navigate = Some (1, sent), watcher = example_watcher\<rparr>"

text \<open>
  A Node-like environment in which every file reads as \<open>body {}\<close>, the remote evaluation
  returns handle 7 and the transfer keeps the handle.
\<close>

definition example_injection :: "nat injection_env" where
  "example_injection =
     \<lparr>import_fs = None,
      readFile = (\<lambda>p. Inr ''body {}''),
      evaluateHandle = (\<lambda>call. Inr 7),
      transferHandle = (\<lambda>h. Inr h)\<rparr>"

text \<open>
  A query collaborator that keeps the selector and whose handler finds nothing
  (\<open>null\<close>) unless the selector is empty, in which case it throws.
\<close>

definition example_query :: "string \<Rightarrow> string \<times> (unit, nat) wait_for option" where
  "example_query selector =
     (selector, Some (\<lambda>s options. if s = [] then Inl (Error ''empty selector'') else Inr None))"


section \<open>Helper lemmas\<close>

lemma fr_detached_apply_op: "fr_detached f \<Longrightarrow> fr_detached (apply_op f op)"
  by (cases op)
     (simp_all add: updateClient_def navigated_def navigatedWithinDocument_def
        onLifecycleEvent_def onLoadingStopped_def onLoadingStarted_def detach_def Let_def)

lemma fr_detached_foldl: "fr_detached f \<Longrightarrow> fr_detached (foldl apply_op f ops)"
  by (induction ops arbitrary: f) (simp_all add: fr_detached_apply_op)

lemma fr_name_apply_op: "\<not> is_Navigated op \<Longrightarrow> fr_name (apply_op f op) = fr_name f"
  by (cases op)
     (simp_all add: updateClient_def navigatedWithinDocument_def
        onLifecycleEvent_def onLoadingStopped_def onLoadingStarted_def detach_def Let_def)

lemma fr_name_foldl:
  "\<forall>op \<in> set ops. \<not> is_Navigated op \<Longrightarrow> fr_name (foldl apply_op f ops) = fr_name f"
  by (induction ops arbitrary: f) (simp_all add: fr_name_apply_op)

text \<open>The first race of \<open>goto\<close> goes to \<open>navigate\<close> when no failure of the watcher is earlier.\<close>

lemma race_navigate_first:
  assumes "\<forall>t' e. timeoutOrTermination w = Some (t', e) \<longrightarrow> t \<le> t'"
  shows "race 0 [Some (t, s), timeoutOrTerminationPromise w] = Some (t, s)"
  using assms
  by (cases "timeoutOrTermination w")
     (auto simp: race_def timeoutOrTerminationPromise_def)



lemma navigate_no_error:
  "\<not> truthy (errorText r) \<or> errorText r = Some ''net::ERR_HTTP_RESPONSE_CODE_FAILURE'' \<Longrightarrow>
   navigate accepts target (Fulfilled r) b = (truthy (loaderId r), Fulfilled None)"
  by (auto simp: navigate_def)

lemma example_env_watcher: "watcher (example_env sent) = example_watcher"
  by (simp add: example_env_def)

lemma example_env_navigate_first:
  "\<forall>t' e. timeoutOrTermination (watcher (example_env sent)) = Some (t', e) \<longrightarrow> 1 \<le> t'"
  by (simp add: example_env_watcher example_watcher_def)

text \<open>The sum that the validation computes is the number of options that are set.\<close>

lemma plus_bang_bang_is_set: "plus_bang_bang x = (if is_set x then 1 else 0)"
  by (cases x rule: is_set.cases) (simp_all add: plus_bang_bang_def)

lemma validation_sum:
  "plus_bang_bang u + plus_bang_bang p
     + plus_bang_bang (Some (case c of None \<Rightarrow> [] | Some s \<Rightarrow> s))
   = sources_set u p c"
proof -
  have "plus_bang_bang (Some (case c of None \<Rightarrow> [] | Some s \<Rightarrow> s)) = plus_bang_bang c"
    by (cases c) (simp_all add: plus_bang_bang_def)
  then show ?thesis
    by (simp add: sources_set_def plus_bang_bang_is_set)
qed

lemma evaluate_and_transfer_effects: "snd (evaluate_and_transfer env done call) \<noteq> []"
  by (simp add: evaluate_and_transfer_def split: sum.splits)

lemma read_path_effects: "read_path env p = Inl (e, done) \<Longrightarrow> done \<noteq> []"
  by (auto simp: read_path_def split: option.splits sum.splits)

lemma addScriptTag_rejects:
  "sources_set (o_url opts) (o_path opts) (o_content opts) \<noteq> 1 \<Longrightarrow>
   addScriptTag env opts = (Throws (Error exactly_one_message), [])"
  by (simp add: addScriptTag_def Let_def validation_sum)

lemma addScriptTag_passes:
  "sources_set (o_url opts) (o_path opts) (o_content opts) = 1 \<Longrightarrow>
   snd (addScriptTag env opts) \<noteq> []"
  by (auto simp: addScriptTag_def Let_def validation_sum evaluate_and_transfer_effects
        split: sum.splits dest: read_path_effects)

lemma addStyleTag_rejects:
  "sources_set (s_url opts) (s_path opts) (s_content opts) \<noteq> 1 \<Longrightarrow>
   addStyleTag env opts = (Throws (Error exactly_one_message), [])"
  by (simp add: addStyleTag_def Let_def validation_sum)

lemma addStyleTag_passes:
  "sources_set (s_url opts) (s_path opts) (s_content opts) = 1 \<Longrightarrow>
   snd (addStyleTag env opts) \<noteq> []"
  by (auto simp: addStyleTag_def Let_def validation_sum evaluate_and_transfer_effects
        split: sum.splits dest: read_path_effects)

lemma startsWith_iff: "startsWith s p \<longleftrightarrow> (\<exists>rest. s = p @ rest)"
  unfolding startsWith_def
  by (metis append_eq_conv_conj append_take_drop_id)

section \<open>Lifecycle events\<close>

text \<open>
  Claim C1, as stated, asks that \<open>_onLifecycleEvent(loaderId, "init")\<close> leave the set of
  lifecycle events empty. On a new frame the set is not empty after the call: the \<open>add\<close>
  that follows the \<open>if\<close> puts \<open>"init"\<close> itself into the cleared set.
\<close>

theorem onLifecycleEvent_init_counterexample:
  "fr_lifecycleEvents (onLifecycleEvent (new_Frame ''F1'' None 0) ''L1'' ''init'') \<noteq> {}"
  by (simp add: onLifecycleEvent_def)

text \<open>
  Claim C1, amended: for the event name \<open>"init"\<close> the call replaces the loader id by
  \<open>loaderId\<close>, clears the set and adds \<open>"init"\<close>, so that the set is exactly \<open>{"init"}\<close>
  after the call; for any other event name it adds the name to the set, whatever the loader
  id, and changes nothing else, the loader id included.
\<close>

theorem onLifecycleEvent_effect:
  "onLifecycleEvent f loader ''init''
     = f\<lparr>fr_loaderId := loader, fr_lifecycleEvents := {''init''}\<rparr>
   \<and> (nm \<noteq> ''init'' \<longrightarrow>
        onLifecycleEvent f loader nm
          = f\<lparr>fr_lifecycleEvents := insert nm (fr_lifecycleEvents f)\<rparr>
        \<and> fr_loaderId (onLifecycleEvent f loader nm) = fr_loaderId f)"
  by (simp add: onLifecycleEvent_def)

theorem onLifecycleEvent_effect_witness:
  "''load'' \<noteq> ''init''
   \<and> fr_lifecycleEvents
       (onLifecycleEvent (onLifecycleEvent (new_Frame ''F1'' None 0) ''L1'' ''init'') ''L0'' ''load'')
     = {''load'', ''init''}
   \<and> fr_loaderId
       (onLifecycleEvent (onLifecycleEvent (new_Frame ''F1'' None 0) ''L1'' ''init'') ''L0'' ''load'')
     = ''L1''"
  using onLifecycleEvent_effect [of "new_Frame ''F1'' None 0" "''L1''" "''load''"]
    onLifecycleEvent_effect
      [of "onLifecycleEvent (new_Frame ''F1'' None 0) ''L1'' ''init''" "''L0''" "''load''"]
  by (simp add: new_Frame_def updateClient_def)

section \<open>Name, URL and detachment\<close>

text \<open>
  Claim C5, as stated, asks that \<open>name()\<close> fall back to the frame's identifier when the
  declared name is empty. A frame with identifier \<open>F1\<close> that navigates with an empty name
  answers the empty string: \<open>name()\<close> is \<open>this._name || ''\<close> and never reads \<open>_id\<close>.
\<close>

theorem name_no_identifier_fallback_counterexample:
  "name (navigated (new_Frame ''F1'' None 0)
           \<lparr>p_url = ''about:blank'', p_urlFragment = None, p_name = Some []\<rparr>)
   \<noteq> fr_id (navigated (new_Frame ''F1'' None 0)
           \<lparr>p_url = ''about:blank'', p_urlFragment = None, p_name = Some []\<rparr>)"
  by (simp add: name_def navigated_def new_Frame_def updateClient_def)

text \<open>
  Claim C5, amended: \<open>name()\<close> returns the name recorded at the most recent navigation,
  and the empty string when the payload had no name or an empty one; the value is fixed at
  navigation time, since no operation of the frame other than \<open>_navigated\<close> changes it.
\<close>

theorem name_recorded_at_navigation:
  "name (navigated f p) = (case p_name p of None \<Rightarrow> [] | Some n \<Rightarrow> n)
   \<and> ((\<forall>op \<in> set ops. \<not> is_Navigated op) \<longrightarrow>
        name (run_ops (navigated f p) ops) = name (navigated f p))"
proof
  show "name (navigated f p) = (case p_name p of None \<Rightarrow> [] | Some n \<Rightarrow> n)"
    by (cases "p_name p") (simp_all add: name_def navigated_def)
  show "(\<forall>op \<in> set ops. \<not> is_Navigated op) \<longrightarrow>
        name (run_ops (navigated f p) ops) = name (navigated f p)"
    by (simp add: name_def run_ops_def fr_name_foldl)
qed

theorem name_recorded_at_navigation_witness:
  "\<not> is_Navigated (OnLifecycleEvent ''L2'' ''init'')
   \<and> \<not> is_Navigated (NavigatedWithinDocument ''http://a/#x'')
   \<and> \<not> is_Navigated (UpdateClient 1) \<and> \<not> is_Navigated Detach
   \<and> name (run_ops
             (navigated (new_Frame ''F1'' None 0)
                \<lparr>p_url = ''http://a/'', p_urlFragment = None, p_name = Some ''left''\<rparr>)
             [OnLifecycleEvent ''L2'' ''init'', NavigatedWithinDocument ''http://a/#x'',
              UpdateClient 1, Detach])
     = ''left''"
  using name_recorded_at_navigation
    [of "new_Frame ''F1'' None 0"
        "\<lparr>p_url = ''http://a/'', p_urlFragment = None, p_name = Some ''left''\<rparr>"
        "[OnLifecycleEvent ''L2'' ''init'', NavigatedWithinDocument ''http://a/#x'',
          UpdateClient 1, Detach]"]
  by simp

text \<open>
  Claim C6: once \<open>_detach()\<close> has run, \<open>isDetached()\<close> is true after any further
  operations of the frame, and \<open>_detach\<close> detaches the main world and the puppeteer world,
  which leaves neither with a live execution context.
\<close>

theorem detach_is_permanent:
  "isDetached (run_ops (detach f) ops)
   \<and> fr_worlds (detach f) MAIN_WORLD = world_detach (fr_worlds f MAIN_WORLD)
   \<and> fr_worlds (detach f) PUPPETEER_WORLD = world_detach (fr_worlds f PUPPETEER_WORLD)
   \<and> live_context (fr_worlds (detach f) MAIN_WORLD) = None
   \<and> live_context (fr_worlds (detach f) PUPPETEER_WORLD) = None"
proof -
  have "fr_detached (detach f)" by (simp add: detach_def Let_def)
  then have "isDetached (run_ops (detach f) ops)"
    by (simp add: isDetached_def run_ops_def fr_detached_foldl)
  moreover have "fr_worlds (detach f) MAIN_WORLD = world_detach (fr_worlds f MAIN_WORLD)"
    by (simp add: detach_def Let_def)
  moreover have
    "fr_worlds (detach f) PUPPETEER_WORLD = world_detach (fr_worlds f PUPPETEER_WORLD)"
    by (simp add: detach_def Let_def)
  ultimately show ?thesis by (simp add: world_detach_def)
qed

text \<open>
  Claim C7: \<open>_navigated(payload)\<close> sets the URL to the payload's URL followed by its
  fragment (nothing when the fragment is absent) and the declared name to the payload's
  name; the lifecycle events, the loader id, the has-started-loading flag and the detached
  flag stay as they were.
\<close>

theorem navigated_effect:
  "url (navigated f p) = p_url p @ (case p_urlFragment p of None \<Rightarrow> [] | Some g \<Rightarrow> g)
   \<and> fr_name (navigated f p) = p_name p
   \<and> fr_lifecycleEvents (navigated f p) = fr_lifecycleEvents f
   \<and> fr_loaderId (navigated f p) = fr_loaderId f
   \<and> fr_hasStartedLoading (navigated f p) = fr_hasStartedLoading f
   \<and> isDetached (navigated f p) = isDetached f"
  by (cases "p_urlFragment p") (simp_all add: url_def navigated_def isDetached_def)

section \<open>Waiting for an XPath\<close>

text \<open>
  Claim C10: \<open>waitForXPath(expression, options)\<close> is \<open>waitForSelector\<close> on the selector
  \<open>xpath/\<close> followed by the expression, with a dot put in front of the expression exactly
  when it starts with \<open>//\<close>.
\<close>

theorem waitForXPath_delegates:
  "(\<forall>rest. xpath = ''//'' @ rest \<longrightarrow>
      waitForXPath q xpath options = waitForSelector q (''xpath/.//'' @ rest) options)
   \<and> ((\<nexists>rest. xpath = ''//'' @ rest) \<longrightarrow>
      waitForXPath q xpath options = waitForSelector q (''xpath/'' @ xpath) options)"
  using startsWith_iff [of xpath "''//''"]
  by (auto simp: waitForXPath_def Let_def)

theorem waitForXPath_delegates_witness:
  "''//div'' = ''//'' @ ''div''
   \<and> waitForXPath example_query ''//div'' () = waitForSelector example_query ''xpath/.//div'' ()
   \<and> \<not> startsWith ''.//div'' ''//''
   \<and> waitForXPath example_query ''.//div'' () = waitForSelector example_query ''xpath/.//div'' ()
   \<and> waitForXPath example_query ''.//div'' () = Inr None"
  using waitForXPath_delegates [of "''//div''" example_query "()"]
    waitForXPath_delegates [of "''.//div''" example_query "()"]
  by (simp add: waitForSelector_def example_query_def startsWith_def)

section \<open>Navigation\<close>

text \<open>
  After a \<open>navigate\<close> that ended without error and before any failure of the watcher,
  \<open>goto\<close> is its second wait followed by the \<open>try\<close> block.
\<close>

lemma goto_after_navigate:
  assumes "send_navigate env = Some (t, Fulfilled r)"
    and "\<forall>t' e. timeoutOrTermination (watcher env) = Some (t', e) \<longrightarrow> t \<le> t'"
    and "\<not> truthy (errorText r) \<or> errorText r = Some ''net::ERR_HTTP_RESPONSE_CODE_FAILURE''"
  shows "goto env target
           = after_await (watcher env) (goto_wait (watcher env) (truthy (loaderId r)) t)"
proof -
  have nav: "navigate_promise env target = Some (t, Fulfilled None)"
    using assms(1) navigate_no_error [OF assms(3)] by (simp add: navigate_promise_def)
  have ens: "ensureNewDocumentNavigation env target t = truthy (loaderId r)"
    using assms(1) navigate_no_error [OF assms(3)] by (simp add: ensureNewDocumentNavigation_def)
  show ?thesis
    using race_navigate_first [OF assms(2)] nav ens by (simp add: goto_def)
qed

lemma throw_or_respond_other_path:
  "throw_or_respond (w\<lparr>sameDocumentNavigation := x\<rparr>) = throw_or_respond w"
  "throw_or_respond (w\<lparr>newDocumentNavigation := x\<rparr>) = throw_or_respond w"
  by (simp_all add: throw_or_respond_def fun_eq_iff split: option.splits)

lemma after_await_other_path:
  "after_await (w\<lparr>sameDocumentNavigation := x\<rparr>) p = after_await w p"
  "after_await (w\<lparr>newDocumentNavigation := x\<rparr>) p = after_await w p"
  unfolding after_await_def throw_or_respond_other_path by (rule refl)+

lemma goto_wait_other_path:
  "goto_wait (w\<lparr>sameDocumentNavigation := x\<rparr>) True t = goto_wait w True t"
  "goto_wait (w\<lparr>newDocumentNavigation := x\<rparr>) False t = goto_wait w False t"
  by (simp_all add: goto_wait_def timeoutOrTerminationPromise_def
        sameDocumentNavigationPromise_def newDocumentNavigationPromise_def)

text \<open>
  Claim C2, as stated, asks that \<open>goto\<close> accept the new-document path too when the
  response of the navigate command carries no loader id. In the example the response has
  no loader id and no error, the new-document path of the watcher resolves at tick 2, and
  \<open>goto\<close> still throws the timeout of tick 9: it waits on the same-document path alone.
\<close>

theorem goto_without_loader_id_counterexample:
  "loaderId \<lparr>loaderId = None, errorText = None\<rparr> = None
   \<and> newDocumentNavigationPromise example_watcher = Some (2, Fulfilled None)
   \<and> goto (example_env (Fulfilled \<lparr>loaderId = None, errorText = None\<rparr>)) ''http://a/''
     = Some \<lparr>completion = Throws (Error ''Navigation timeout of 30000 ms exceeded''),
             disposed = True\<rparr>"
  by (simp add: example_env_def example_watcher_def goto_def race_def navigate_promise_def
        navigate_def timeoutOrTerminationPromise_def ensureNewDocumentNavigation_def
        goto_wait_def sameDocumentNavigationPromise_def newDocumentNavigationPromise_def
        after_await_def throw_or_respond_def)

text \<open>
  Claim C2, amended: when the navigate command completes without error (and no timeout or
  termination came first), \<open>goto\<close> then waits on timeout or termination and on exactly one
  navigation path of the watcher: the new-document path if the response carried a
  non-empty loader id, the same-document path otherwise. In either case the other path has
  no influence on the call.
\<close>

theorem goto_waits_on_one_path:
  assumes "send_navigate env = Some (t, Fulfilled r)"
    and "\<forall>t' e. timeoutOrTermination (watcher env) = Some (t', e) \<longrightarrow> t \<le> t'"
    and "\<not> truthy (errorText r) \<or> errorText r = Some ''net::ERR_HTTP_RESPONSE_CODE_FAILURE''"
  shows "(truthy (loaderId r) \<longrightarrow>
            goto env target
              = after_await (watcher env)
                  (race t [timeoutOrTerminationPromise (watcher env),
                           newDocumentNavigationPromise (watcher env)])
            \<and> goto (env\<lparr>watcher := (watcher env)\<lparr>sameDocumentNavigation := x\<rparr>\<rparr>) target
              = goto env target)
         \<and> (\<not> truthy (loaderId r) \<longrightarrow>
            goto env target
              = after_await (watcher env)
                  (race t [timeoutOrTerminationPromise (watcher env),
                           sameDocumentNavigationPromise (watcher env)])
            \<and> goto (env\<lparr>watcher := (watcher env)\<lparr>newDocumentNavigation := x\<rparr>\<rparr>) target
              = goto env target)"
proof -
  note main = goto_after_navigate [OF assms, of target]
  have same: "goto (env\<lparr>watcher := (watcher env)\<lparr>sameDocumentNavigation := x\<rparr>\<rparr>) target
      = after_await (watcher env)
          (goto_wait ((watcher env)\<lparr>sameDocumentNavigation := x\<rparr>) (truthy (loaderId r)) t)"
    using goto_after_navigate
      [of "env\<lparr>watcher := (watcher env)\<lparr>sameDocumentNavigation := x\<rparr>\<rparr>" t r target]
      assms
    by (simp add: after_await_other_path)
  have new: "goto (env\<lparr>watcher := (watcher env)\<lparr>newDocumentNavigation := x\<rparr>\<rparr>) target
      = after_await (watcher env)
          (goto_wait ((watcher env)\<lparr>newDocumentNavigation := x\<rparr>) (truthy (loaderId r)) t)"
    using goto_after_navigate
      [of "env\<lparr>watcher := (watcher env)\<lparr>newDocumentNavigation := x\<rparr>\<rparr>" t r target]
      assms
    by (simp add: after_await_other_path)
  show ?thesis
  proof (cases "truthy (loaderId r)")
    case True
    then show ?thesis
      using main same by (simp add: goto_wait_other_path) (simp add: goto_wait_def)
  next
    case False
    then show ?thesis
      using main new by (simp add: goto_wait_other_path) (simp add: goto_wait_def)
  qed
qed

theorem goto_waits_on_one_path_witness:
  "goto (example_env (Fulfilled \<lparr>loaderId = Some ''L2'', errorText = None\<rparr>)) ''http://a/''
     = Some \<lparr>completion = Returns (Some 200), disposed = True\<rparr>
   \<and> goto (example_env (Fulfilled \<lparr>loaderId = None, errorText = None\<rparr>)) ''http://b/''
     = Some \<lparr>completion = Throws (Error ''Navigation timeout of 30000 ms exceeded''),
             disposed = True\<rparr>"
proof -
  have a: "goto (example_env (Fulfilled \<lparr>loaderId = Some ''L2'', errorText = None\<rparr>)) ''http://a/''
     = Some \<lparr>completion = Returns (Some 200), disposed = True\<rparr>"
    using goto_waits_on_one_path
      [of "example_env (Fulfilled \<lparr>loaderId = Some ''L2'', errorText = None\<rparr>)" 1
          "\<lparr>loaderId = Some ''L2'', errorText = None\<rparr>" "''http://a/''",
       OF _ example_env_navigate_first]
    by (simp add: example_env_def example_watcher_def race_def after_await_def
          throw_or_respond_def timeoutOrTerminationPromise_def newDocumentNavigationPromise_def)
  have b: "goto (example_env (Fulfilled \<lparr>loaderId = None, errorText = None\<rparr>)) ''http://b/''
     = Some \<lparr>completion = Throws (Error ''Navigation timeout of 30000 ms exceeded''),
             disposed = True\<rparr>"
    using goto_waits_on_one_path
      [of "example_env (Fulfilled \<lparr>loaderId = None, errorText = None\<rparr>)" 1
          "\<lparr>loaderId = None, errorText = None\<rparr>" "''http://b/''",
       OF _ example_env_navigate_first]
    by (simp add: example_env_def example_watcher_def race_def after_await_def
          throw_or_respond_def timeoutOrTerminationPromise_def sameDocumentNavigationPromise_def)
  show ?thesis using a b by simp
qed




section \<open>Disposal of the watcher\<close>

lemma throw_or_respond_disposes: "throw_or_respond w now error = Some res \<Longrightarrow> disposed res"
  by (auto simp: throw_or_respond_def split: option.splits settled.splits prod.splits)

lemma earlier_cases: "earlier p q = p \<or> earlier p q = q"
  by (cases "(p, q)" rule: earlier.cases) auto

lemma earlier_None: "earlier p None = p"
  by (cases p) simp_all

lemma watcher_race_fulfilled:
  assumes "\<forall>p \<in> set ps. \<forall>t e. p \<noteq> Some (t, Rejected e)"
  shows "race now ps \<noteq> Some (t, Rejected e)"
  using assms unfolding race_def
proof (induction ps)
  case Nil
  then show ?case by simp
next
  case (Cons p ps)
  have "await now p \<noteq> Some (t, Rejected e)"
    using Cons.prems by (cases "(now, p)" rule: await.cases) auto
  moreover have "foldr earlier (map (await now) ps) None \<noteq> Some (t, Rejected e)"
    using Cons by simp
  ultimately show ?case
    using earlier_cases [of "await now p" "foldr earlier (map (await now) ps) None"]
    by auto
qed

lemma watcher_promises_fulfil:
  "timeoutOrTerminationPromise w \<noteq> Some (t, Rejected e)"
  "sameDocumentNavigationPromise w \<noteq> Some (t, Rejected e)"
  "newDocumentNavigationPromise w \<noteq> Some (t, Rejected e)"
  "Some (t, Rejected e) \<noteq> timeoutOrTerminationPromise w"
  "Some (t, Rejected e) \<noteq> sameDocumentNavigationPromise w"
  "Some (t, Rejected e) \<noteq> newDocumentNavigationPromise w"
  by (auto simp: timeoutOrTerminationPromise_def sameDocumentNavigationPromise_def
        newDocumentNavigationPromise_def split: option.splits)

lemma after_await_disposes:
  assumes "\<forall>t e. p \<noteq> Some (t, Rejected e)" and "after_await w p = Some res"
  shows "disposed res"
  using assms
  by (auto simp: after_await_def split: option.splits settled.splits prod.splits
        dest: throw_or_respond_disposes)

text \<open>Every completed \<open>waitForNavigation\<close> has disposed of its watcher.\<close>

lemma waitForNavigation_disposes: "waitForNavigation w = Some res \<Longrightarrow> disposed res"
  unfolding waitForNavigation_def
  by (rule after_await_disposes [rotated], assumption)
     (auto intro!: watcher_race_fulfilled simp: watcher_promises_fulfil)

lemma goto_wait_fulfilled: "goto_wait w ensure now \<noteq> Some (t, Rejected e)"
  unfolding goto_wait_def
  by (auto intro!: watcher_race_fulfilled simp: watcher_promises_fulfil)

lemma first_race_rejected:
  assumes "race 0 [navigate_promise env target, timeoutOrTerminationPromise (watcher env)]
             = Some (t, Rejected v)"
  shows "send_navigate env = Some (t, Rejected v) \<and> \<not> isErrorLike env v"
proof -
  have "earlier (await 0 (navigate_promise env target))
          (await 0 (timeoutOrTerminationPromise (watcher env))) = Some (t, Rejected v)"
    using assms by (simp add: race_def earlier_None)
  moreover have "await 0 (timeoutOrTerminationPromise (watcher env)) \<noteq> Some (t, Rejected v)"
    by (auto simp: timeoutOrTerminationPromise_def split: option.splits)
  ultimately have "await 0 (navigate_promise env target) = Some (t, Rejected v)"
    using earlier_cases by metis
  then have "navigate_promise env target = Some (t, Rejected v)"
    by (cases "navigate_promise env target") auto
  then show ?thesis
    by (auto simp: navigate_promise_def navigate_def
          split: option.splits settled.splits prod.splits if_splits)
qed

text \<open>
  A completed \<open>goto\<close> has disposed of its watcher on every path but one: the rejection of
  \<open>client.send\<close> with a value that \<open>isErrorLike\<close> refuses, which \<open>navigate\<close> throws again.
\<close>

lemma goto_disposes_unless_rethrown:
  assumes "goto env target = Some res" and "\<not> disposed res"
  shows "\<exists>t v. send_navigate env = Some (t, Rejected v) \<and> \<not> isErrorLike env v
               \<and> completion res = Throws v"
proof (cases "race 0 [navigate_promise env target, timeoutOrTerminationPromise (watcher env)]")
  case None
  then show ?thesis using assms by (simp add: goto_def)
next
  case (Some a)
  obtain t s where a: "a = (t, s)" by (cases a)
  show ?thesis
  proof (cases s)
    case (Rejected v)
    then have "res = \<lparr>completion = Throws v, disposed = False\<rparr>"
      using assms Some a by (simp add: goto_def)
    then show ?thesis
      using first_race_rejected [of env target t v] Some a Rejected by auto
  next
    case (Fulfilled error)
    show ?thesis
    proof (cases error)
      case None
      then have "after_await (watcher env)
          (goto_wait (watcher env) (ensureNewDocumentNavigation env target t) t) = Some res"
        using assms Some a Fulfilled by (simp add: goto_def)
      then have "disposed res"
        using after_await_disposes goto_wait_fulfilled by blast
      then show ?thesis using assms by simp
    next
      case (Some e)
      then have "throw_or_respond (watcher env) t (Some e) = Some res"
        using assms \<open>race 0 _ = Some a\<close> a Fulfilled by (simp add: goto_def)
      then show ?thesis using assms throw_or_respond_disposes by blast
    qed
  qed
qed

text \<open>
  Claim C8 asks that every exit of \<open>goto\<close> and \<open>waitForNavigation\<close> come after
  \<open>watcher.dispose()\<close>. When \<open>client.send\<close> rejects with a value that is not error-like,
  the \<open>catch\<close> of \<open>navigate\<close> throws it again, the first \<open>await\<close> of \<open>goto\<close> throws before
  the \<open>try\<close> block is entered, and the call ends with that value and an undisposed watcher.
\<close>

theorem goto_rethrow_skips_dispose:
  "goto (example_env (Rejected (Value ''boom''))) ''http://a/''
     = Some \<lparr>completion = Throws (Value ''boom''), disposed = False\<rparr>"
  by (simp add: example_env_def example_watcher_def goto_def race_def navigate_promise_def
        navigate_def timeoutOrTerminationPromise_def)

section \<open>Script and style injection\<close>

text \<open>
  Claim C4: for \<open>addScriptTag\<close> and for \<open>addStyleTag\<close>, when the number of options set
  among \<open>url\<close>, \<open>path\<close> and \<open>content\<close> is not one, the call throws the error "Exactly one
  of ..." and has had no effect outside the frame, so no remote evaluation; when it is
  one, the call gets past the validation, to the import of \<open>fs\<close> or the remote evaluation.
\<close>

theorem exactly_one_source_validation:
  "(sources_set (o_url so) (o_path so) (o_content so) \<noteq> 1 \<longrightarrow>
      addScriptTag env so = (Throws (Error exactly_one_message), []))
   \<and> (sources_set (o_url so) (o_path so) (o_content so) = 1 \<longrightarrow>
      snd (addScriptTag env so) \<noteq> [])
   \<and> (sources_set (s_url st) (s_path st) (s_content st) \<noteq> 1 \<longrightarrow>
      addStyleTag env st = (Throws (Error exactly_one_message), []))
   \<and> (sources_set (s_url st) (s_path st) (s_content st) = 1 \<longrightarrow>
      snd (addStyleTag env st) \<noteq> [])"
  using addScriptTag_rejects addScriptTag_passes addStyleTag_rejects addStyleTag_passes
  by blast

theorem exactly_one_source_validation_witness:
  "addScriptTag example_injection
     \<lparr>o_url = None, o_path = None, o_content = None, o_type = None, o_id = None\<rparr>
     = (Throws (Error exactly_one_message), [])
   \<and> snd (addScriptTag example_injection
        \<lparr>o_url = Some ''https://x/a.js'', o_path = None, o_content = None, o_type = None,
         o_id = None\<rparr>) \<noteq> []
   \<and> addStyleTag example_injection
       \<lparr>s_url = Some ''https://x/a.css'', s_path = Some ''a.css'', s_content = None\<rparr>
     = (Throws (Error exactly_one_message), [])
   \<and> snd (addStyleTag example_injection
        \<lparr>s_url = None, s_path = Some ''a.css'', s_content = None\<rparr>) \<noteq> []"
  using exactly_one_source_validation
      [of "\<lparr>o_url = None, o_path = None, o_content = None, o_type = None, o_id = None\<rparr>"
          example_injection
          "\<lparr>s_url = Some ''https://x/a.css'', s_path = Some ''a.css'', s_content = None\<rparr>"]
    exactly_one_source_validation
      [of "\<lparr>o_url = Some ''https://x/a.js'', o_path = None, o_content = None, o_type = None,
            o_id = None\<rparr>"
          example_injection
          "\<lparr>s_url = None, s_path = Some ''a.css'', s_content = None\<rparr>"]
  by (simp add: sources_set_def)



end
